theory Spec2Isabelle
  imports Main
begin

section \<open>JavaScript values\<close>

text \<open>
  The values that flow through \<^verbatim>\<open>src/index.js\<close>: configuration fields, tokens, request
  option objects and JSON bodies. An object is its list of own enumerable properties in
  insertion order. A number is integer valued (status codes, counters, ids); fractional
  numbers and \<^verbatim>\<open>NaN\<close> are not represented. Strings are byte strings (UTF-8).
\<close>

datatype jsval =
    JUndefined
  | JNull
  | JBool bool
  | JNum int
  | JStr string
  | JArr "jsval list"
  | JObj "(string \<times> jsval) list"

text \<open>What a \<^verbatim>\<open>throw\<close> carries. \<open>Error m\<close> is \<^verbatim>\<open>new Error(m)\<close> for a string \<open>m\<close>;
  \<open>WrappedError e\<close> is \<^verbatim>\<open>new Error(e)\<close> for a caught error object \<open>e\<close>;
  \<open>UnhandledError v\<close> is what an event emitter throws when \<^verbatim>\<open>"error"\<close> is emitted with
  payload \<open>v\<close> and nobody listens.\<close>

datatype error =
    Error string
  | WrappedError error
  | TypeError
  | SyntaxError
  | ReferenceError
  | UnhandledError jsval

subsection \<open>Decimal numerals\<close>

fun show_nat :: "nat \<Rightarrow> string" where
  "show_nat n =
     (if n < 10 then [''0123456789'' ! n]
      else show_nat (n div 10) @ [''0123456789'' ! (n mod 10)])"

declare show_nat.simps [simp del]

definition show_int :: "int \<Rightarrow> string" where
  "show_int i = (if i < 0 then ''-'' @ show_nat (nat (- i)) else show_nat (nat i))"

subsection \<open>Conversions\<close>

fun join :: "string \<Rightarrow> string list \<Rightarrow> string" where
  "join sep [] = []"
| "join sep [x] = x"
| "join sep (x # y # ys) = x @ sep @ join sep (y # ys)"

text \<open>\<^verbatim>\<open>String(v)\<close>, as string concatenation and template literals apply it. An array
  joins its elements with commas, \<^verbatim>\<open>null\<close> and \<^verbatim>\<open>undefined\<close> elements as the empty
  string; a plain object is \<^verbatim>\<open>[object Object]\<close>.\<close>

fun ToString :: "jsval \<Rightarrow> string" where
  "ToString JUndefined = ''undefined''"
| "ToString JNull = ''null''"
| "ToString (JBool b) = (if b then ''true'' else ''false'')"
| "ToString (JNum n) = show_int n"
| "ToString (JStr s) = s"
| "ToString (JArr xs) =
     join '','' (map (\<lambda>x. if x = JUndefined \<or> x = JNull then [] else ToString x) xs)"
| "ToString (JObj ps) = ''[object Object]''"

text \<open>Truthiness, as \<^verbatim>\<open>if(v)\<close>, \<^verbatim>\<open>!v\<close> and \<^verbatim>\<open>a || b\<close> test it.\<close>

fun ToBoolean :: "jsval \<Rightarrow> bool" where
  "ToBoolean JUndefined = False"
| "ToBoolean JNull = False"
| "ToBoolean (JBool b) = b"
| "ToBoolean (JNum n) = (n \<noteq> 0)"
| "ToBoolean (JStr s) = (s \<noteq> [])"
| "ToBoolean (JArr xs) = True"
| "ToBoolean (JObj ps) = True"

text \<open>Reading a property \<^verbatim>\<open>v.name\<close>: a \<^verbatim>\<open>TypeError\<close> on \<^verbatim>\<open>null\<close> and
  \<^verbatim>\<open>undefined\<close>, the own property of an object, and \<^verbatim>\<open>undefined\<close> otherwise (none of
  the names the source reads is inherited from a prototype).\<close>

fun get_prop :: "jsval \<Rightarrow> string \<Rightarrow> error + jsval" where
  "get_prop JUndefined name = Inl TypeError"
| "get_prop JNull name = Inl TypeError"
| "get_prop (JObj ps) name = (case map_of ps name of Some v \<Rightarrow> Inr v | None \<Rightarrow> Inr JUndefined)"
| "get_prop v name = Inr JUndefined"

text \<open>Writing a property: an existing key keeps its place, a new key goes last.\<close>

fun set_prop :: "(string \<times> jsval) list \<Rightarrow> string \<Rightarrow> jsval \<Rightarrow> (string \<times> jsval) list" where
  "set_prop [] name v = [(name, v)]"
| "set_prop ((k, x) # ps) name v =
     (if k = name then (k, v) # ps else (k, x) # set_prop ps name v)"

definition delete_prop :: "(string \<times> jsval) list \<Rightarrow> string \<Rightarrow> (string \<times> jsval) list" where
  "delete_prop ps name = filter (\<lambda>p. fst p \<noteq> name) ps"

subsection \<open>The global function isNaN\<close>

text \<open>
  \<^verbatim>\<open>isNaN(v)\<close> converts \<open>v\<close> to a number and tests the result. A string converts by the
  grammar \<^verbatim>\<open>StringNumericLiteral\<close> of ECMAScript: white space is trimmed at both ends; the
  empty string is \<open>0\<close>; otherwise the string is a binary, octal or hexadecimal integer
  literal, or an optionally signed \<^verbatim>\<open>Infinity\<close> or decimal literal with optional fraction
  and exponent. Every other string converts to \<^verbatim>\<open>NaN\<close>.
\<close>

definition isDecimalDigit :: "char \<Rightarrow> bool" where
  "isDecimalDigit c = (c \<in> set ''0123456789'')"

definition isDecimalDigits :: "string \<Rightarrow> bool" where
  "isDecimalDigits s = (s \<noteq> [] \<and> list_all isDecimalDigit s)"

text \<open>The white space and line terminator code points, in UTF-8.\<close>

definition StrWhiteSpaceChar :: "string list" where
  "StrWhiteSpaceChar =
     [[CHR 0x09], [CHR 0x0A], [CHR 0x0B], [CHR 0x0C], [CHR 0x0D], [CHR 0x20],
      [CHR 0xC2, CHR 0xA0], [CHR 0xE1, CHR 0x9A, CHR 0x80],
      [CHR 0xE2, CHR 0x80, CHR 0x80], [CHR 0xE2, CHR 0x80, CHR 0x81],
      [CHR 0xE2, CHR 0x80, CHR 0x82], [CHR 0xE2, CHR 0x80, CHR 0x83],
      [CHR 0xE2, CHR 0x80, CHR 0x84], [CHR 0xE2, CHR 0x80, CHR 0x85],
      [CHR 0xE2, CHR 0x80, CHR 0x86], [CHR 0xE2, CHR 0x80, CHR 0x87],
      [CHR 0xE2, CHR 0x80, CHR 0x88], [CHR 0xE2, CHR 0x80, CHR 0x89],
      [CHR 0xE2, CHR 0x80, CHR 0x8A], [CHR 0xE2, CHR 0x80, CHR 0xA8],
      [CHR 0xE2, CHR 0x80, CHR 0xA9], [CHR 0xE2, CHR 0x80, CHR 0xAF],
      [CHR 0xE2, CHR 0x81, CHR 0x9F], [CHR 0xE3, CHR 0x80, CHR 0x80],
      [CHR 0xEF, CHR 0xBB, CHR 0xBF]]"

definition starts_with :: "string \<Rightarrow> string \<Rightarrow> bool" where
  "starts_with s p = (take (length p) s = p)"

text \<open>Dropping leading sequences of the given list, one sequence per step; \<open>n\<close> bounds
  the number of steps by the length of the string.\<close>

fun drop_seqs :: "nat \<Rightarrow> string list \<Rightarrow> string \<Rightarrow> string" where
  "drop_seqs 0 seqs s = s"
| "drop_seqs (Suc n) seqs s =
     (case find (starts_with s) seqs of
        None \<Rightarrow> s
      | Some p \<Rightarrow> drop_seqs n seqs (drop (length p) s))"

definition trim :: "string \<Rightarrow> string" where
  "trim s =
     (let t = drop_seqs (length s) StrWhiteSpaceChar s
      in rev (drop_seqs (length t) (map rev StrWhiteSpaceChar) (rev t)))"

definition isSignedInteger :: "string \<Rightarrow> bool" where
  "isSignedInteger s =
     (case s of
        [] \<Rightarrow> False
      | c # t \<Rightarrow> if c = CHR ''+'' \<or> c = CHR ''-'' then isDecimalDigits t else isDecimalDigits s)"

definition isExponentPart :: "string \<Rightarrow> bool" where
  "isExponentPart s =
     (case s of [] \<Rightarrow> False | c # t \<Rightarrow> (c = CHR ''e'' \<or> c = CHR ''E'') \<and> isSignedInteger t)"

definition isOptExponentPart :: "string \<Rightarrow> bool" where
  "isOptExponentPart s = (s = [] \<or> isExponentPart s)"

definition isStrUnsignedDecimalLiteral :: "string \<Rightarrow> bool" where
  "isStrUnsignedDecimalLiteral s =
     (s = ''Infinity'' \<or>
      (let ds = takeWhile isDecimalDigit s; r = dropWhile isDecimalDigit s
       in if ds \<noteq> [] then
            isOptExponentPart r \<or>
            (case r of
               [] \<Rightarrow> False
             | c # t \<Rightarrow> c = CHR ''.'' \<and> isOptExponentPart (dropWhile isDecimalDigit t))
          else
            (case r of
               [] \<Rightarrow> False
             | c # t \<Rightarrow>
                 c = CHR ''.'' \<and> takeWhile isDecimalDigit t \<noteq> [] \<and>
                 isOptExponentPart (dropWhile isDecimalDigit t))))"

definition isStrDecimalLiteral :: "string \<Rightarrow> bool" where
  "isStrDecimalLiteral s =
     (case s of
        [] \<Rightarrow> False
      | c # t \<Rightarrow>
          if c = CHR ''+'' \<or> c = CHR ''-'' then isStrUnsignedDecimalLiteral t
          else isStrUnsignedDecimalLiteral s)"

definition isNonDecimalIntegerLiteral :: "string \<Rightarrow> bool" where
  "isNonDecimalIntegerLiteral s =
     (case s of
        z # x # ds \<Rightarrow>
          z = CHR ''0'' \<and> ds \<noteq> [] \<and>
          (if x = CHR ''b'' \<or> x = CHR ''B'' then list_all (\<lambda>d. d \<in> set ''01'') ds
           else if x = CHR ''o'' \<or> x = CHR ''O'' then list_all (\<lambda>d. d \<in> set ''01234567'') ds
           else if x = CHR ''x'' \<or> x = CHR ''X'' then
             list_all (\<lambda>d. d \<in> set ''0123456789abcdefABCDEF'') ds
           else False)
      | _ \<Rightarrow> False)"

definition isStringNumericLiteral :: "string \<Rightarrow> bool" where
  "isStringNumericLiteral s =
     (let t = trim s in t = [] \<or> isNonDecimalIntegerLiteral t \<or> isStrDecimalLiteral t)"

text \<open>\<^verbatim>\<open>isNaN\<close> on a value: \<^verbatim>\<open>undefined\<close> is \<^verbatim>\<open>NaN\<close>; \<^verbatim>\<open>null\<close>, booleans and the
  numbers of this model are numbers; arrays and objects convert through their string.\<close>

fun isNaN :: "jsval \<Rightarrow> bool" where
  "isNaN JUndefined = True"
| "isNaN JNull = False"
| "isNaN (JBool b) = False"
| "isNaN (JNum n) = False"
| "isNaN (JStr s) = (\<not> isStringNumericLiteral s)"
| "isNaN (JArr xs) = (\<not> isStringNumericLiteral (ToString (JArr xs)))"
| "isNaN (JObj ps) = (\<not> isStringNumericLiteral (ToString (JObj ps)))"

section \<open>Building the query of getUsers\<close>

text \<open>\<^verbatim>\<open>Array.prototype.indexOf\<close> on an array of strings: the first index holding the
  value, \<open>-1\<close> when there is none.\<close>

fun indexOf :: "string list \<Rightarrow> string \<Rightarrow> int" where
  "indexOf [] x = - 1"
| "indexOf (y # ys) x =
     (if y = x then 0 else (let i = indexOf ys x in if i < 0 then - 1 else i + 1))"

text \<open>The argument \<^verbatim>\<open>ids\<close> of \<^verbatim>\<open>getUsers\<close>, of the documented type
  \<^verbatim>\<open>string|string[]\<close>.\<close>

datatype ids_arg = IdsString string | IdsArray "string list"

text \<open>One parameter of the query, lines 431--437: the sniffed type, and \<^verbatim>\<open>?\<close> or
  \<^verbatim>\<open>&\<close> by \<^verbatim>\<open>ids.indexOf(id) === 0\<close>.\<close>

definition getUsers_param :: "string list \<Rightarrow> string \<Rightarrow> string" where
  "getUsers_param ids uid =
     (let type = (if isNaN (JStr uid) then ''login'' else ''id'')
      in if indexOf ids uid = 0 then ''?'' @ type @ ''='' @ uid
         else ''&'' @ type @ ''='' @ uid)"

text \<open>The loop \<^verbatim>\<open>for(let id of ids)\<close>, over the elements still to visit (the loop
  variable \<^verbatim>\<open>id\<close> is \<open>uid\<close> here).\<close>

fun getUsers_loop :: "string list \<Rightarrow> string list \<Rightarrow> string \<Rightarrow> string" where
  "getUsers_loop ids [] query = query"
| "getUsers_loop ids (uid # rest) query =
     getUsers_loop ids rest (query @ getUsers_param ids uid)"

text \<open>Lines 423--441 of \<^verbatim>\<open>getUsers\<close>: the endpoint handed to the dispatcher.\<close>

definition getUsers_query :: "ids_arg \<Rightarrow> string" where
  "getUsers_query ids =
     (case ids of
        IdsString s \<Rightarrow>
          (let type = (if isNaN (JStr s) then ''login'' else ''id'')
           in ''?'' @ type @ ''='' @ s)
      | IdsArray xs \<Rightarrow> getUsers_loop xs xs [])"

section \<open>The instance, the environment and the observable effects\<close>

text \<open>The fields the constructor of \<^verbatim>\<open>TwitchApi\<close> sets (lines 51--57), and the event names
  the instance has listeners for (\<^verbatim>\<open>eventNames()\<close> of the event emitter it extends).\<close>

record TwitchApi =
  isApp :: bool
  access_token :: jsval
  refresh_token :: jsval
  client_id :: jsval
  client_secret :: jsval
  base :: string
  refresh_attempts :: nat
  eventNames :: "string list"

text \<open>A response of the HTTP client, as the source reads it.\<close>

record response =
  statusCode :: int
  statusMessage :: string
  rbody :: jsval

text \<open>What the promise of \<^verbatim>\<open>request(options)\<close> settles to: rejected with a reason (given
  by its string), or resolved with a response (every call passes \<^verbatim>\<open>simple: false\<close>, so a
  status of 400 and above resolves too).\<close>

datatype net_result = Rejected string | Resolved response

text \<open>
  What the code does not define itself:
  \<^item> \<open>net n\<close>: how the \<open>n\<close>-th call of \<^verbatim>\<open>request\<close> (counted from 0) settles;
  \<^item> \<open>JSON_parse v\<close>: the value of \<^verbatim>\<open>JSON.parse(v)\<close>, \<open>None\<close> when it throws a
    \<^verbatim>\<open>SyntaxError\<close>;
  \<^item> \<open>encodeURIComponent\<close>: the global function of that name;
  \<^item> \<open>parseOptions\<close>, \<open>getLocalClientId\<close>, \<open>getLocalClientSecret\<close>: the functions of the
    module \<^verbatim>\<open>./methods\<close>, which is not among the sources;
  \<^item> \<open>globals name\<close>: the property \<open>name\<close> of the global object, \<open>None\<close> when it has none.
\<close>

record env =
  net :: "nat \<Rightarrow> net_result"
  JSON_parse :: "jsval \<Rightarrow> jsval option"
  encodeURIComponent :: "string \<Rightarrow> string"
  parseOptions :: "jsval \<Rightarrow> string"
  getLocalClientId :: jsval
  getLocalClientSecret :: jsval
  globals :: "string \<Rightarrow> jsval option"

text \<open>
  The state a call runs in: the instance, and what the call leaves behind for an observer:
  the option objects handed to \<^verbatim>\<open>request\<close>, the lines written to the console, the events
  emitted, the arguments of every call of a callback, and the errors of calls that were
  started without \<^verbatim>\<open>await\<close> (unhandled rejections).
\<close>

record world =
  api :: TwitchApi
  sent :: "jsval list"
  console :: "string list"
  emitted :: "(string \<times> jsval) list"
  calls :: "jsval list list"
  unhandled :: "error list"

text \<open>The optional argument \<^verbatim>\<open>callback\<close>: absent (or falsy), a function, or a truthy value
  that is no function. A function given by the caller is only recorded when called.\<close>

datatype callback = NoCallback | Callback | NotCallable

definition given :: "callback \<Rightarrow> bool" where
  "given callback = (callback \<noteq> NoCallback)"

definition call :: "callback \<Rightarrow> jsval list \<Rightarrow> world \<Rightarrow> (error + unit) \<times> world" where
  "call callback args w =
     (case callback of
        Callback \<Rightarrow> (Inr (), w\<lparr>calls := calls w @ [args]\<rparr>)
      | _ \<Rightarrow> (Inl TypeError, w))"

definition response_obj :: "response \<Rightarrow> jsval" where
  "response_obj r =
     JObj [(''statusCode'', JNum (statusCode r)), (''statusMessage'', JStr (statusMessage r)),
           (''body'', rbody r)]"

text \<open>\<^verbatim>\<open>_error(err)\<close>, line 99: throws a new error with the message.\<close>

definition TwitchApi_error :: "string \<Rightarrow> error" where
  "TwitchApi_error err = Error err"

text \<open>Lines 51--60 of the constructor: the fields, and the refusal of \<^verbatim>\<open>isApp\<close> together
  with an access token. The first request the constructor then starts (lines 62--83) is
  not awaited; it is one of the calls below.\<close>

definition constructor_fields :: "env \<Rightarrow> jsval \<Rightarrow> error + TwitchApi" where
  "constructor_fields e config =
     (case get_prop config ''isApp'' of
        Inl err \<Rightarrow> Inl err
      | Inr is_app \<Rightarrow>
     (case get_prop config ''access_token'' of
        Inl err \<Rightarrow> Inl err
      | Inr access_token' \<Rightarrow>
     (case get_prop config ''refresh_token'' of
        Inl err \<Rightarrow> Inl err
      | Inr refresh_token' \<Rightarrow>
     (case get_prop config ''client_id'' of
        Inl err \<Rightarrow> Inl err
      | Inr client_id' \<Rightarrow>
     (case get_prop config ''client_secret'' of
        Inl err \<Rightarrow> Inl err
      | Inr client_secret' \<Rightarrow>
          if ToBoolean is_app \<and> ToBoolean access_token' then
            Inl (TwitchApi_error
                  (''Option isApp is set to true while an access_token is provided. '' @
                   ''Choose one method of authentication, do not use both.''))
          else
            Inr \<lparr> isApp = ToBoolean is_app,
                  access_token = access_token',
                  refresh_token = refresh_token',
                  client_id = (if ToBoolean client_id' then client_id' else getLocalClientId e),
                  client_secret =
                    (if ToBoolean client_secret' then client_secret'
                     else getLocalClientSecret e),
                  base = ''https://api.twitch.tv/helix'',
                  refresh_attempts = 0,
                  eventNames = [] \<rparr>)))))"

section \<open>Private methods\<close>

text \<open>A private method \<^verbatim>\<open>_name\<close> of the class is \<open>TwitchApi_name\<close> here.\<close>

text \<open>\<^verbatim>\<open>_isListeningFor(event)\<close>, line 108.\<close>

definition TwitchApi_isListeningFor :: "string \<Rightarrow> world \<Rightarrow> bool" where
  "TwitchApi_isListeningFor event w = (event \<in> set (eventNames (api w)))"

text \<open>\<^verbatim>\<open>this.emit(event, payload)\<close> of the event emitter: emitting \<^verbatim>\<open>"error"\<close> with no
  listener throws.\<close>

definition emit :: "string \<Rightarrow> jsval \<Rightarrow> world \<Rightarrow> (error + unit) \<times> world" where
  "emit event payload w =
     (if event = ''error'' \<and> event \<notin> set (eventNames (api w)) then (Inl (UnhandledError payload), w)
      else (Inr (), w\<lparr>emitted := emitted w @ [(event, payload)]\<rparr>))"

text \<open>\<^verbatim>\<open>await request(options).catch(err => { this._error(err) })\<close>: the call is recorded,
  and a rejection becomes a thrown error.\<close>

definition request :: "env \<Rightarrow> jsval \<Rightarrow> world \<Rightarrow> (error + response) \<times> world" where
  "request e options w =
     (case net e (length (sent w)) of
        Rejected err \<Rightarrow> (Inl (TwitchApi_error err), w\<lparr>sent := sent w @ [options]\<rparr>)
      | Resolved response \<Rightarrow> (Inr response, w\<lparr>sent := sent w @ [options]\<rparr>))"

text \<open>\<^verbatim>\<open>_getAppAccessToken(callback)\<close>, lines 117--144.\<close>

definition TwitchApi_getAppAccessToken_options :: "TwitchApi \<Rightarrow> jsval" where
  "TwitchApi_getAppAccessToken_options this =
     (let data = JObj [(''client_id'', client_id this),
                       (''client_secret'', client_secret this),
                       (''grant_type'', JStr ''client_credentials'')]
      in JObj [(''url'', JStr ''https://id.twitch.tv/oauth2/token''),
               (''method'', JStr ''POST''),
               (''json'', JBool True),
               (''body'', data),
               (''headers'', JObj [(''Content-Type'', JStr ''application/json'')]),
               (''resolveWithFullResponse'', JBool True),
               (''simple'', JBool False)])"

definition TwitchApi_getAppAccessToken ::
  "env \<Rightarrow> callback \<Rightarrow> world \<Rightarrow> (error + jsval) \<times> world" where
  "TwitchApi_getAppAccessToken e callback w =
     (let options = TwitchApi_getAppAccessToken_options (api w)
      in case request e options w of
           (Inl err, w1) \<Rightarrow> (Inl err, w1)
         | (Inr response, w1) \<Rightarrow>
             (case JSON_parse e (rbody response) of
                None \<Rightarrow> (Inl SyntaxError, w1)
              | Some body \<Rightarrow>
                  if given callback then
                    (case call callback [body, response_obj response] w1 of
                       (Inl err, w2) \<Rightarrow> (Inl err, w2)
                     | (Inr u, w2) \<Rightarrow> (Inr JUndefined, w2))
                  else (Inr body, w1)))"

text \<open>\<^verbatim>\<open>_validate(callback)\<close>, lines 228--261. Only status 200 makes the token valid.\<close>

definition TwitchApi_validate_options :: "TwitchApi \<Rightarrow> jsval" where
  "TwitchApi_validate_options this =
     JObj [(''url'', JStr ''https://id.twitch.tv/oauth2/validate''),
           (''headers'',
              JObj [(''Authorization'', JStr (''OAuth '' @ ToString (access_token this)))]),
           (''resolveWithFullResponse'', JBool True),
           (''simple'', JBool False)]"

definition TwitchApi_validate :: "env \<Rightarrow> callback \<Rightarrow> world \<Rightarrow> (error + jsval) \<times> world" where
  "TwitchApi_validate e callback w =
     (let options = TwitchApi_validate_options (api w)
      in case request e options w of
           (Inl err, w1) \<Rightarrow> (Inl err, w1)
         | (Inr response, w1) \<Rightarrow>
             (case JSON_parse e (rbody response) of
                None \<Rightarrow> (Inl SyntaxError, w1)
              | Some body \<Rightarrow>
                  (case get_prop body ''message'' of
                     Inl err \<Rightarrow> (Inl err, w1)
                   | Inr message \<Rightarrow>
                       (let valid = (if statusCode response = 200 then True
                                     else if statusCode response = 401 then False
                                     else False)
                        in if message = JStr ''missing authorization token'' then
                             (Inl (TwitchApi_error ''missing authorization token''), w1)
                           else if given callback then
                             (case call callback [JBool valid] w1 of
                                (Inl err, w2) \<Rightarrow> (Inl err, w2)
                              | (Inr u, w2) \<Rightarrow> (Inr JUndefined, w2))
                           else (Inr (JBool valid), w1)))))"

text \<open>The options of the refresh request, lines 155--172 of \<^verbatim>\<open>_refresh\<close>.\<close>

definition TwitchApi_refresh_options :: "env \<Rightarrow> TwitchApi \<Rightarrow> jsval" where
  "TwitchApi_refresh_options e this =
     (let data = JObj [(''client_id'', client_id this),
                       (''client_secret'', client_secret this),
                       (''grant_type'', JStr ''refresh_token''),
                       (''refresh_token'',
                          JStr (encodeURIComponent e (ToString (refresh_token this))))]
      in JObj [(''url'', JStr ''https://id.twitch.tv/oauth2/token''),
               (''method'', JStr ''POST''),
               (''json'', JBool True),
               (''body'', data),
               (''headers'', JObj [(''Content-Type'', JStr ''application/json'')]),
               (''resolveWithFullResponse'', JBool True),
               (''simple'', JBool False)])"

text \<open>Lines 179--187: the refresh of an application token.\<close>

definition TwitchApi_refresh_app :: "env \<Rightarrow> callback \<Rightarrow> world \<Rightarrow> (error + jsval) \<times> world" where
  "TwitchApi_refresh_app e callback w1 =
     (case TwitchApi_getAppAccessToken e NoCallback w1 of
        (Inl err, w2) \<Rightarrow> (Inl (WrappedError err), w2)
      | (Inr result, w2) \<Rightarrow>
          (case get_prop result ''access_token'' of
             Inl err \<Rightarrow> (Inl err, w2)
           | Inr access_token' \<Rightarrow>
               (case emit ''refresh'' result
                       (w2\<lparr>api := (api w2)\<lparr>access_token := access_token'\<rparr>\<rparr>) of
                  (Inl err, w3) \<Rightarrow> (Inl err, w3)
                | (Inr u, w3) \<Rightarrow>
                    if given callback then
                      (case call callback [] w3 of
                         (Inl err, w4) \<Rightarrow> (Inl err, w4)
                       | (Inr u', w4) \<Rightarrow> (Inr JUndefined, w4))
                    else (Inr JUndefined, w3))))"

text \<open>Lines 190--220: the refresh of a user token, with the options built at lines
  155--172.\<close>

definition TwitchApi_refresh_user ::
  "env \<Rightarrow> jsval \<Rightarrow> callback \<Rightarrow> world \<Rightarrow> (error + jsval) \<times> world" where
  "TwitchApi_refresh_user e options callback w1 =
     (case request e options w1 of
        (Inl err, w2) \<Rightarrow> (Inl err, w2)
      | (Inr response, w2) \<Rightarrow>
          (let body = rbody response in
           case get_prop body ''access_token'' of
             Inl err \<Rightarrow> (Inl err, w2)
           | Inr access_token' \<Rightarrow>
          (case get_prop body ''refresh_token'' of
             Inl err \<Rightarrow> (Inl err, w2)
           | Inr refresh_token' \<Rightarrow>
               (let w3 = (if ToBoolean access_token'
                          then w2\<lparr>api := (api w2)\<lparr>access_token := access_token'\<rparr>\<rparr>
                          else w2);
                    w4 = (if ToBoolean refresh_token'
                          then w3\<lparr>api := (api w3)\<lparr>refresh_token := refresh_token'\<rparr>\<rparr>
                          else w3)
                in case (if TwitchApi_isListeningFor ''refresh'' w4
                         then emit ''refresh'' body w4 else (Inr (), w4)) of
                     (Inl err, w5) \<Rightarrow> (Inl err, w5)
                   | (Inr u, w5) \<Rightarrow>
                       (case (if given callback then call callback [] w5
                              else (Inr (), w5)) of
                          (Inl err, w6) \<Rightarrow> (Inl err, w6)
                        | (Inr u', w6) \<Rightarrow>
                            (Inr JUndefined,
                             w6\<lparr>api := (api w6)
                                  \<lparr>refresh_attempts := refresh_attempts (api w6) + 1\<rparr>\<rparr>))))))"

text \<open>\<^verbatim>\<open>_refresh(callback)\<close>, lines 151--221. The branch of an application token
  returns (line 187) before the counter is incremented (line 218).\<close>

definition TwitchApi_refresh :: "env \<Rightarrow> callback \<Rightarrow> world \<Rightarrow> (error + jsval) \<times> world" where
  "TwitchApi_refresh e callback w =
     (if refresh_attempts (api w) > 1 then
        (Inl (TwitchApi_error (''Refresh attempts have failed. '' @
                               ''Use the previously logged information as help.'')), w)
      else
        (let options = TwitchApi_refresh_options e (api w)
         in case TwitchApi_validate e NoCallback w of
              (Inl err, w1) \<Rightarrow> (Inl err, w1)
            | (Inr valid, w1) \<Rightarrow>
                if ToBoolean valid then (Inr JUndefined, w1)
                else if isApp (api w1) then TwitchApi_refresh_app e callback w1
                else TwitchApi_refresh_user e options callback w1))"

subsection \<open>The dispatcher for GET\<close>

text \<open>The regular expression \<^verbatim>\<open>/\bValid OAuth token with/i\<close> of line 287, tested against
  the string of the message: the phrase, in any case of its letters, with no word character
  just before it.\<close>

definition isWordChar :: "char \<Rightarrow> bool" where
  "isWordChar c =
     (c \<in> set ''abcdefghijklmnopqrstuvwxyzABCDEFGHIJKLMNOPQRSTUVWXYZ0123456789_'')"

definition toLowerCase :: "char \<Rightarrow> char" where
  "toLowerCase c =
     (case map_of (zip ''ABCDEFGHIJKLMNOPQRSTUVWXYZ'' ''abcdefghijklmnopqrstuvwxyz'') c of
        Some l \<Rightarrow> l
      | None \<Rightarrow> c)"

fun regexp_scan :: "bool \<Rightarrow> string \<Rightarrow> bool" where
  "regexp_scan prev_word [] = False"
| "regexp_scan prev_word (c # cs) =
     (if \<not> prev_word \<and> starts_with (map toLowerCase (c # cs)) ''valid oauth token with''
      then True
      else regexp_scan (isWordChar c) cs)"

definition regexp_test :: "jsval \<Rightarrow> bool" where
  "regexp_test message = regexp_scan False (ToString message)"

definition TwitchApi_get_options :: "TwitchApi \<Rightarrow> string \<Rightarrow> jsval" where
  "TwitchApi_get_options this endpoint =
     JObj [(''url'', JStr (base this @ endpoint)),
           (''method'', JStr ''GET''),
           (''headers'',
              JObj [(''Client-ID'', client_id this),
                    (''Authorization'', JStr (''Bearer '' @ ToString (access_token this)))]),
           (''resolveWithFullResponse'', JBool True),
           (''simple'', JBool False)]"

text \<open>The error logged (line 290) and the error object emitted (line 292) for a response
  with status 400 and above.\<close>

definition TwitchApi_get_err_msg :: "TwitchApi \<Rightarrow> string \<Rightarrow> response \<Rightarrow> jsval \<Rightarrow> string" where
  "TwitchApi_get_err_msg this endpoint response message =
     [CHR 0x0A] @ ''Get request to '' @ base this @ endpoint @ '' failed:'' @ [CHR 0x0A] @
     show_int (statusCode response) @ '' '' @ statusMessage response @ '': '' @
     ToString message @ [CHR 0x0A]"

definition err_obj :: "response \<Rightarrow> jsval \<Rightarrow> jsval" where
  "err_obj response message =
     JObj [(''type'', JStr ''http''),
           (''code'', JNum (statusCode response)),
           (''statusMessage'', JStr (statusMessage response)),
           (''message'', message)]"

text \<open>Lines 270--314 of \<^verbatim>\<open>_get\<close>: the request, the parsed body, and for a status of 400
  and above the fatal message, the log and the error event.\<close>

definition TwitchApi_get_request ::
  "env \<Rightarrow> string \<Rightarrow> world \<Rightarrow> (error + response \<times> jsval) \<times> world" where
  "TwitchApi_get_request e endpoint w =
     (let options = TwitchApi_get_options (api w) endpoint
      in case request e options w of
           (Inl err, w1) \<Rightarrow> (Inl err, w1)
         | (Inr response, w1) \<Rightarrow>
             (case JSON_parse e (rbody response) of
                None \<Rightarrow> (Inl SyntaxError, w1)
              | Some body \<Rightarrow>
                  (case get_prop body ''message'' of
                     Inl err \<Rightarrow> (Inl err, w1)
                   | Inr message \<Rightarrow>
                       (let status = statusCode response;
                            err_msg = TwitchApi_get_err_msg (api w) endpoint response message
                        in if status \<ge> 400 then
                             (if regexp_test message then
                                (Inl (TwitchApi_error (ToString message)), w1)
                              else
                                (let w2 = w1\<lparr>console := console w1 @ [err_msg]\<rparr>
                                 in if TwitchApi_isListeningFor ''error'' w2
                                    then (case emit ''error'' (err_obj response message) w2 of
                                            (Inl err, w3) \<Rightarrow> (Inl err, w3)
                                          | (Inr u, w3) \<Rightarrow> (Inr (response, body), w3))
                                    else (Inr (response, body), w2)))
                           else (Inr (response, body), w1)))))"

text \<open>
  \<^verbatim>\<open>_get(endpoint, callback)\<close>, lines 269--326. After a status of 400 and above it awaits
  \<^verbatim>\<open>_refresh()\<close> and calls itself again (lines 317--320), whatever \<^verbatim>\<open>_refresh\<close> did;
  nothing bounds the number of rounds, so the function is partial: \<open>None\<close> is a call that
  never settles.
\<close>

partial_function (option) TwitchApi_get ::
  "env \<Rightarrow> string \<Rightarrow> callback \<Rightarrow> world \<Rightarrow> ((error + jsval) \<times> world) option" where
  "TwitchApi_get e endpoint callback w =
     (case TwitchApi_get_request e endpoint w of
        (Inl err, w3) \<Rightarrow> Some (Inl err, w3)
      | (Inr (response, body), w3) \<Rightarrow>
          if statusCode response \<ge> 400 then
            (case TwitchApi_refresh e NoCallback w3 of
               (Inl err, w4) \<Rightarrow> Some (Inl err, w4)
             | (Inr u, w4) \<Rightarrow> TwitchApi_get e endpoint callback w4)
          else if given callback then
            (case call callback [body, response_obj response] w3 of
               (Inl err, w4) \<Rightarrow> Some (Inl err, w4)
             | (Inr u, w4) \<Rightarrow> Some (Inr JUndefined, w4))
          else Some (Inr body, w3))"

subsection \<open>The dispatcher for POST\<close>

text \<open>
  \<^verbatim>\<open>_post(endpoint, data, callback)\<close>, lines 335--385. The body is parsed twice (lines 352
  and 355), the error event is emitted without asking for a listener (line 369), and on a
  status of 401 the field \<^verbatim>\<open>refresh_token\<close> is called as a function (line 373). The field
  holds a token (a string, or \<^verbatim>\<open>undefined\<close>), never a function, so the call throws a
  \<^verbatim>\<open>TypeError\<close> and the arrow function that would post again never runs.
\<close>

text \<open>Calling a value as a function, \<^verbatim>\<open>v(...)\<close>: no value of \<open>jsval\<close> is a function.\<close>

definition call_value :: "jsval \<Rightarrow> world \<Rightarrow> (error + jsval) \<times> world" where
  "call_value v w = (Inl TypeError, w)"

definition TwitchApi_post_options :: "TwitchApi \<Rightarrow> string \<Rightarrow> jsval \<Rightarrow> jsval" where
  "TwitchApi_post_options this endpoint data =
     JObj [(''url'', JStr (base this @ endpoint)),
           (''method'', JStr ''POST''),
           (''json'', JBool True),
           (''body'', data),
           (''headers'',
              JObj [(''Content-Type'', JStr ''application/json''),
                    (''Authorization'', JStr (''Bearer '' @ ToString (access_token this))),
                    (''Client-ID'', client_id this)]),
           (''resolveWithFullResponse'', JBool True),
           (''simple'', JBool False)]"

definition TwitchApi_post_err_msg :: "TwitchApi \<Rightarrow> string \<Rightarrow> response \<Rightarrow> jsval \<Rightarrow> string" where
  "TwitchApi_post_err_msg this endpoint response message =
     [CHR 0x0A] @ ''Post request to '' @ base this @ endpoint @ '' failed:'' @ [CHR 0x0A] @
     show_int (statusCode response) @ '' '' @ statusMessage response @ '': '' @
     ToString message @ [CHR 0x0A]"

definition TwitchApi_post ::
  "env \<Rightarrow> string \<Rightarrow> jsval \<Rightarrow> callback \<Rightarrow> world \<Rightarrow> (error + jsval) \<times> world" where
  "TwitchApi_post e endpoint data callback w =
     (let options = TwitchApi_post_options (api w) endpoint data
      in case request e options w of
           (Inl err, w1) \<Rightarrow> (Inl err, w1)
         | (Inr response, w1) \<Rightarrow>
             (case JSON_parse e (rbody response) of
                None \<Rightarrow> (Inl SyntaxError, w1)
              | Some body \<Rightarrow>
                  (case JSON_parse e body of
                     None \<Rightarrow> (Inl SyntaxError, w1)
                   | Some parsed \<Rightarrow>
                       (case get_prop parsed ''message'' of
                          Inl err \<Rightarrow> (Inl err, w1)
                        | Inr message \<Rightarrow>
                            (let status = statusCode response;
                                 err_msg = TwitchApi_post_err_msg (api w) endpoint response message
                             in case (if status \<ge> 400
                                      then emit ''error'' (err_obj response message)
                                             (w1\<lparr>console := console w1 @ [err_msg]\<rparr>)
                                      else (Inr (), w1)) of
                                  (Inl err, w2) \<Rightarrow> (Inl err, w2)
                                | (Inr u, w2) \<Rightarrow>
                                    if status = 401 then
                                      (case call_value (refresh_token (api w2)) w2 of
                                         (Inl err, w3) \<Rightarrow> (Inl err, w3)
                                       | (Inr u', w3) \<Rightarrow> (Inr JUndefined, w3))
                                    else if given callback then
                                      (case call callback [body, response_obj response] w2 of
                                         (Inl err, w3) \<Rightarrow> (Inl err, w3)
                                       | (Inr u', w3) \<Rightarrow> (Inr JUndefined, w3))
                                    else (Inr body, w2))))))"

section \<open>Public methods\<close>

text \<open>
  A public method ends with
  \<^verbatim>\<open>if(callback) this._get(endpoint, callback); else return await this._get(endpoint);\<close>.
  With a callback the call of \<^verbatim>\<open>_get\<close> is not awaited: the method returns
  \<^verbatim>\<open>undefined\<close>, and an error of \<^verbatim>\<open>_get\<close> is an unhandled rejection. The model runs such
  a call to its end at the place where it is started.
\<close>

definition detached ::
  "((error + jsval) \<times> world) option \<Rightarrow> ((error + jsval) \<times> world) option" where
  "detached r =
     (case r of
        None \<Rightarrow> None
      | Some (Inl err, w') \<Rightarrow> Some (Inr JUndefined, w'\<lparr>unhandled := unhandled w' @ [err]\<rparr>)
      | Some (Inr v, w') \<Rightarrow> Some (Inr JUndefined, w'))"

text \<open>\<^verbatim>\<open>getUsers(ids, callback)\<close>, lines 422--447.\<close>

definition getUsers ::
  "env \<Rightarrow> ids_arg \<Rightarrow> callback \<Rightarrow> world \<Rightarrow> ((error + jsval) \<times> world) option" where
  "getUsers e ids callback w =
     (let endpoint = ''/users'' @ getUsers_query ids
      in if given callback then detached (TwitchApi_get e endpoint callback w)
         else TwitchApi_get e endpoint NoCallback w)"

text \<open>\<^verbatim>\<open>getCurrentUser(callback)\<close>, lines 453--463.\<close>

definition getCurrentUser ::
  "env \<Rightarrow> callback \<Rightarrow> world \<Rightarrow> ((error + jsval) \<times> world) option" where
  "getCurrentUser e callback w =
     (if isApp (api w) then
        Some (Inl (TwitchApi_error
                    (''Cannot get the current user when using an application token. '' @
                     ''Use access_token and refresh_token instead.'')), w)
      else
        (let endpoint = ''/users''
         in if given callback then detached (TwitchApi_get e endpoint callback w)
            else TwitchApi_get e endpoint NoCallback w))"

text \<open>Reading an element \<^verbatim>\<open>v[0]\<close>.\<close>

fun get_first :: "jsval \<Rightarrow> error + jsval" where
  "get_first JUndefined = Inl TypeError"
| "get_first JNull = Inl TypeError"
| "get_first (JArr xs) = (case xs of [] \<Rightarrow> Inr JUndefined | x # _ \<Rightarrow> Inr x)"
| "get_first (JStr s) = (case s of [] \<Rightarrow> Inr JUndefined | c # _ \<Rightarrow> Inr (JStr [c]))"
| "get_first (JObj ps) = get_prop (JObj ps) ''0''"
| "get_first v = Inr JUndefined"

text \<open>An argument of the documented type \<^verbatim>\<open>string|string[]\<close> received in the place of a
  callback: truthy or not, and never a function.\<close>

definition as_callback :: "jsval \<Rightarrow> callback" where
  "as_callback v = (if ToBoolean v then NotCallable else NoCallback)"

text \<open>
  \<^verbatim>\<open>getUsersSubStatus(user_ids, callback)\<close>, lines 508--532. Line 511 passes
  \<^verbatim>\<open>user_ids\<close> to \<^verbatim>\<open>getCurrentUser\<close> as its callback. Line 512 reads the identifier
  \<^verbatim>\<open>body\<close>, which neither the function nor the module declares: it resolves on the global
  object, and the read throws a \<^verbatim>\<open>ReferenceError\<close> when there is no such property.
\<close>

definition getUsersSubStatus ::
  "env \<Rightarrow> jsval \<Rightarrow> callback \<Rightarrow> world \<Rightarrow> ((error + jsval) \<times> world) option" where
  "getUsersSubStatus e user_ids callback w =
     (case getCurrentUser e (as_callback user_ids) w of
        None \<Rightarrow> None
      | Some (Inl err, w1) \<Rightarrow> Some (Inl err, w1)
      | Some (Inr user, w1) \<Rightarrow>
          (case globals e ''body'' of
             None \<Rightarrow> Some (Inl ReferenceError, w1)
           | Some body \<Rightarrow>
          (case get_prop body ''data'' of
             Inl err \<Rightarrow> Some (Inl err, w1)
           | Inr data \<Rightarrow>
          (case get_first data of
             Inl err \<Rightarrow> Some (Inl err, w1)
           | Inr user' \<Rightarrow>
          (case get_prop user' ''id'' of
             Inl err \<Rightarrow> Some (Inl err, w1)
           | Inr user_id \<Rightarrow>
          (case (case user_ids of
                   JStr s \<Rightarrow> Inr (''?broadcaster_id='' @ ToString user_id @ ''&user_id='' @ s)
                 | JArr xs \<Rightarrow>
                     Inr (foldl (\<lambda>query x. query @ ''&user_id='' @ ToString x)
                            (''?broadcaster_id='' @ ToString user_id) xs)
                 | _ \<Rightarrow> Inl TypeError) of
             Inl err \<Rightarrow> Some (Inl err, w1)
           | Inr query \<Rightarrow>
               (let endpoint = ''/subscriptions'' @ query
                in if given callback then detached (TwitchApi_get e endpoint callback w1)
                   else TwitchApi_get e endpoint NoCallback w1)))))))"

text \<open>
  \<^verbatim>\<open>getStreams(options, callback)\<close>, lines 545--575. The first component of the result is
  the object the caller passed, as the call leaves it: line 551 deletes its property
  \<^verbatim>\<open>channels\<close> (a missing or falsy argument is replaced by a fresh object, line 547, and
  deleting a property of a primitive value changes nothing).
\<close>

definition getStreams_channel :: "jsval \<Rightarrow> string" where
  "getStreams_channel channel =
     (let type = (if isNaN channel then ''user_login'' else ''user_id'')
      in type @ ''='' @ ToString channel @ ''&'')"

text \<open>Lines 546--567: the caller's object as the call leaves it, and the query (or the
  \<^verbatim>\<open>TypeError\<close> of iterating over channels that are neither a string nor an array).\<close>

definition getStreams_query :: "env \<Rightarrow> jsval \<Rightarrow> jsval \<times> (error + string)" where
  "getStreams_query e options =
     (let options1 = (if \<not> ToBoolean options then JObj [] else options);
          channels = (case options1 of
                        JObj ps \<Rightarrow> (case map_of ps ''channels'' of
                                      Some v \<Rightarrow> v
                                    | None \<Rightarrow> JUndefined)
                      | _ \<Rightarrow> JUndefined);
          options2 = (case options1 of
                        JObj ps \<Rightarrow> JObj (delete_prop ps ''channels'')
                      | _ \<Rightarrow> options1);
          query = ''?'' @ parseOptions e options2
      in (if \<not> ToBoolean options then options else options2,
          if ToBoolean channels then
            (case channels of
               JStr s \<Rightarrow> Inr (query @ getStreams_channel channels)
             | JArr xs \<Rightarrow>
                 Inr (foldl (\<lambda>query channel. query @ getStreams_channel channel) query xs)
             | _ \<Rightarrow> Inl TypeError)
          else Inr query))"

definition getStreams ::
  "env \<Rightarrow> jsval \<Rightarrow> callback \<Rightarrow> world \<Rightarrow> jsval \<times> ((error + jsval) \<times> world) option" where
  "getStreams e options callback w =
     (fst (getStreams_query e options),
      case snd (getStreams_query e options) of
        Inl err \<Rightarrow> Some (Inl err, w)
      | Inr query \<Rightarrow>
          (let endpoint = ''/streams'' @ query
           in if given callback then detached (TwitchApi_get e endpoint callback w)
              else TwitchApi_get e endpoint NoCallback w))"

text \<open>The own enumerable properties of a value, as \<^verbatim>\<open>Object.assign\<close> copies them: those
  of an object, the indexed elements of an array, the indexed characters of a string.\<close>

definition own_props :: "jsval \<Rightarrow> (string \<times> jsval) list" where
  "own_props v =
     (case v of
        JObj ps \<Rightarrow> ps
      | JArr xs \<Rightarrow> map (\<lambda>i. (show_nat i, xs ! i)) [0..<length xs]
      | JStr s \<Rightarrow> map (\<lambda>i. (show_nat i, JStr [s ! i])) [0..<length s]
      | _ \<Rightarrow> [])"

definition Object_assign :: "(string \<times> jsval) list \<Rightarrow> jsval \<Rightarrow> (string \<times> jsval) list" where
  "Object_assign target source = foldl (\<lambda>t p. set_prop t (fst p) (snd p)) target (own_props source)"

text \<open>Lines 591--605 of \<^verbatim>\<open>customRequest\<close>: the headers of the library, overwritten by
  those of the caller where both name one, and the four writes to the options object. The
  result is the caller's object after these writes, which is what \<^verbatim>\<open>request\<close> receives
  (an array passed as options is taken as the bag of its properties).\<close>

definition customRequest_options :: "TwitchApi \<Rightarrow> string \<Rightarrow> jsval \<Rightarrow> jsval" where
  "customRequest_options this endpoint options =
     (let headers = [(''Client-ID'', client_id this),
                     (''Authorization'', JStr (''Bearer '' @ ToString (access_token this)))];
          headers1 = (case get_prop options ''headers'' of
                        Inr h \<Rightarrow> Object_assign headers h
                      | Inl err \<Rightarrow> headers)
      in JObj (set_prop
                (set_prop
                  (set_prop
                    (set_prop (own_props options) ''url'' (JStr (base this @ endpoint)))
                    ''headers'' (JObj headers1))
                  ''resolveWithFullResponse'' (JBool True))
                ''simple'' (JBool False)))"

definition customRequest_log :: "string \<Rightarrow> response \<Rightarrow> jsval \<Rightarrow> string" where
  "customRequest_log url response message =
     ''Custom request to '' @ url @ '' failed:'' @ [CHR 0x0A] @
     show_int (statusCode response) @ '' '' @ statusMessage response @ '': '' @
     ToString message @ [CHR 0x0A]"

text \<open>Lines 607--618 of \<^verbatim>\<open>customRequest\<close>: the request, the parsed body, the log of a
  status of 400 and above, and the result.\<close>

definition customRequest_send ::
  "env \<Rightarrow> string \<Rightarrow> jsval \<Rightarrow> callback \<Rightarrow> world \<Rightarrow> (error + jsval) \<times> world" where
  "customRequest_send e url options callback w =
     (case request e options w of
        (Inl err, w1) \<Rightarrow> (Inl err, w1)
      | (Inr response, w1) \<Rightarrow>
          (case JSON_parse e (rbody response) of
             None \<Rightarrow> (Inl SyntaxError, w1)
           | Some body \<Rightarrow>
               (case (if statusCode response \<ge> 400 then
                        (case get_prop body ''message'' of
                           Inl err \<Rightarrow> (Inl err, w1)
                         | Inr message \<Rightarrow>
                             (Inr (),
                              w1\<lparr>console := console w1 @
                                    [customRequest_log url response message]\<rparr>))
                      else (Inr (), w1)) of
                  (Inl err, w2) \<Rightarrow> (Inl err, w2)
                | (Inr u, w2) \<Rightarrow>
                    if given callback then
                      (case call callback [body, response_obj response] w2 of
                         (Inl err, w3) \<Rightarrow> (Inl err, w3)
                       | (Inr u', w3) \<Rightarrow> (Inr JUndefined, w3))
                    else (Inr body, w2))))"

text \<open>\<^verbatim>\<open>customRequest(endpoint, options, callback)\<close>, lines 583--619.\<close>

definition customRequest ::
  "env \<Rightarrow> jsval \<Rightarrow> jsval \<Rightarrow> callback \<Rightarrow> world \<Rightarrow> (error + jsval) \<times> world" where
  "customRequest e endpoint options callback w =
     (case endpoint of
        JStr s \<Rightarrow>
          (if s = [] then
            (Inl (TwitchApi_error ''No endpoint was provided, cannot perform custom request.''), w)
          else
            (let endpoint1 = (if hd s \<noteq> CHR ''/'' then ''/'' @ s else s);
                 options1 = (if \<not> ToBoolean options then JObj [] else options)
             in case options1 of
                  JStr t \<Rightarrow>
                    (Inl (TwitchApi_error (''customRequest received an options parameter '' @
                                           ''that was not of type object.'')), w)
                | JNum n \<Rightarrow>
                    (Inl (TwitchApi_error (''customRequest received an options parameter '' @
                                           ''that was not of type object.'')), w)
                | JBool b \<Rightarrow>
                    (Inl (TwitchApi_error (''customRequest received an options parameter '' @
                                           ''that was not of type object.'')), w)
                | _ \<Rightarrow>
                    customRequest_send e (base (api w) @ endpoint1)
                      (customRequest_options (api w) endpoint1 options1) callback w))
      | _ \<Rightarrow>
          (Inl (TwitchApi_error ''No endpoint was provided, cannot perform custom request.''), w))"

text \<open>The three public methods that only build an endpoint: \<^verbatim>\<open>getBitsLeaderboard\<close>
  (lines 405--415), \<^verbatim>\<open>getFollows\<close> (lines 474--486) and \<^verbatim>\<open>getSubsById\<close>
  (lines 493--501).\<close>

definition getBitsLeaderboard ::
  "env \<Rightarrow> jsval \<Rightarrow> callback \<Rightarrow> world \<Rightarrow> ((error + jsval) \<times> world) option" where
  "getBitsLeaderboard e options callback w =
     (let query = ''?'' @ parseOptions e options;
          endpoint = ''/bits/leaderboard'' @ query
      in if given callback then detached (TwitchApi_get e endpoint callback w)
         else TwitchApi_get e endpoint NoCallback w)"

definition getFollows ::
  "env \<Rightarrow> jsval \<Rightarrow> callback \<Rightarrow> world \<Rightarrow> ((error + jsval) \<times> world) option" where
  "getFollows e options callback w =
     (let query = (if ToBoolean options then ''?'' @ parseOptions e options else ''?'');
          endpoint = ''/users/follows'' @ query
      in if given callback then detached (TwitchApi_get e endpoint callback w)
         else TwitchApi_get e endpoint NoCallback w)"

definition getSubsById ::
  "env \<Rightarrow> jsval \<Rightarrow> callback \<Rightarrow> world \<Rightarrow> ((error + jsval) \<times> world) option" where
  "getSubsById e broadcaster_id callback w =
     (let query = ''?broadcaster_id='' @ ToString broadcaster_id;
          endpoint = ''/subscriptions'' @ query
      in if given callback then detached (TwitchApi_get e endpoint callback w)
         else TwitchApi_get e endpoint NoCallback w)"

section \<open>The lifetime of an instance\<close>

text \<open>A call of a public method, with its arguments.\<close>

datatype api_call =
    GetBitsLeaderboard jsval callback
  | GetUsers ids_arg callback
  | GetCurrentUser callback
  | GetFollows jsval callback
  | GetSubsById jsval callback
  | GetUsersSubStatus jsval callback
  | GetStreams jsval callback
  | CustomRequest jsval jsval callback

text \<open>The state a call leaves behind once it has settled, whether it returned or threw;
  \<open>None\<close> when it never settles.\<close>

fun perform :: "env \<Rightarrow> api_call \<Rightarrow> world \<Rightarrow> world option" where
  "perform e (GetBitsLeaderboard options callback) w =
     map_option snd (getBitsLeaderboard e options callback w)"
| "perform e (GetUsers ids callback) w = map_option snd (getUsers e ids callback w)"
| "perform e (GetCurrentUser callback) w = map_option snd (getCurrentUser e callback w)"
| "perform e (GetFollows options callback) w = map_option snd (getFollows e options callback w)"
| "perform e (GetSubsById broadcaster_id callback) w =
     map_option snd (getSubsById e broadcaster_id callback w)"
| "perform e (GetUsersSubStatus user_ids callback) w =
     map_option snd (getUsersSubStatus e user_ids callback w)"
| "perform e (GetStreams options callback) w =
     map_option snd (snd (getStreams e options callback w))"
| "perform e (CustomRequest endpoint options callback) w =
     Some (snd (customRequest e endpoint options callback w))"


section \<open>Scenarios\<close>

text \<open>The \<open>n\<close>-th call of \<^verbatim>\<open>request\<close> is answered by the response \<open>r\<close>, whose body parses
  to \<open>b\<close>, whose property \<^verbatim>\<open>message\<close> reads as \<open>m\<close>.\<close>

definition answered :: "env \<Rightarrow> nat \<Rightarrow> response \<Rightarrow> jsval \<Rightarrow> jsval \<Rightarrow> bool" where
  "answered e n r b m =
     (net e n = Resolved r \<and> JSON_parse e (rbody r) = Some b \<and> get_prop b ''message'' = Inr m)"

text \<open>The state after \<^verbatim>\<open>_get\<close> has sent its request and reported a response with a
  status of 400 and above (lines 289--314): the request is recorded, the error is logged,
  and the error object is emitted when somebody listens.\<close>

definition reported :: "world \<Rightarrow> string \<Rightarrow> response \<Rightarrow> jsval \<Rightarrow> world" where
  "reported w endpoint r m =
     (if TwitchApi_isListeningFor ''error'' w
      then w\<lparr>sent := sent w @ [TwitchApi_get_options (api w) endpoint],
             console := console w @ [TwitchApi_get_err_msg (api w) endpoint r m],
             emitted := emitted w @ [(''error'', err_obj r m)]\<rparr>
      else w\<lparr>sent := sent w @ [TwitchApi_get_options (api w) endpoint],
             console := console w @ [TwitchApi_get_err_msg (api w) endpoint r m]\<rparr>)"


text \<open>A network that answers the calls of \<^verbatim>\<open>request\<close> from a list, in order, and
  rejects every call after the last.\<close>

definition script :: "net_result list \<Rightarrow> nat \<Rightarrow> net_result" where
  "script rs n = (if n < length rs then rs ! n else Rejected ''socket hang up'')"

text \<open>The values of \<^verbatim>\<open>JSON.parse\<close> on the bodies the scenarios use; it throws on every
  other value, an object among them (whose string is \<^verbatim>\<open>[object Object]\<close>).\<close>

definition json_table :: "(jsval \<times> jsval) list" where
  \<open>json_table =
     [(JStr ''{"status":404,"message":"Not Found"}'',
         JObj [(''status'', JNum 404), (''message'', JStr ''Not Found'')]),
      (JStr ''{"status":401,"message":"Invalid OAuth token"}'',
         JObj [(''status'', JNum 401), (''message'', JStr ''Invalid OAuth token'')]),
      (JStr ''{"client_id":"abc","login":"ninja"}'',
         JObj [(''client_id'', JStr ''abc''), (''login'', JStr ''ninja'')]),
      (JStr ''{"status":401,"message":"invalid access token"}'',
         JObj [(''status'', JNum 401), (''message'', JStr ''invalid access token'')]),
      (JStr ''{"data":[{"id":"19571641","login":"ninja"}]}'',
         JObj [(''data'',
                JArr [JObj [(''id'', JStr ''19571641''), (''login'', JStr ''ninja'')]])]),
      (JStr ''{"access_token":"token1","token_type":"bearer"}'',
         JObj [(''access_token'', JStr ''token1''), (''token_type'', JStr ''bearer'')])]\<close>

definition demo_env :: "net_result list \<Rightarrow> env" where
  "demo_env rs =
     \<lparr> net = script rs, JSON_parse = map_of json_table, encodeURIComponent = (\<lambda>s. s),
       parseOptions = (\<lambda>v. []), getLocalClientId = JUndefined,
       getLocalClientSecret = JUndefined, globals = (\<lambda>name. None) \<rparr>"

definition user_api :: TwitchApi where
  "user_api =
     \<lparr> isApp = False, access_token = JStr ''token0'', refresh_token = JStr ''refresh0'',
       client_id = JStr ''abc'', client_secret = JStr ''xyz'',
       base = ''https://api.twitch.tv/helix'', refresh_attempts = 0, eventNames = [] \<rparr>"

definition app_api :: TwitchApi where
  "app_api =
     \<lparr> isApp = True, access_token = JStr ''token0'', refresh_token = JUndefined,
       client_id = JStr ''abc'', client_secret = JStr ''xyz'',
       base = ''https://api.twitch.tv/helix'', refresh_attempts = 0, eventNames = [] \<rparr>"

definition new_world :: "TwitchApi \<Rightarrow> world" where
  "new_world this =
     \<lparr> api = this, sent = [], console = [], emitted = [], calls = [], unhandled = [] \<rparr>"

definition not_found :: response where
  \<open>not_found =
     \<lparr> statusCode = 404, statusMessage = ''Not Found'',
       rbody = JStr ''{"status":404,"message":"Not Found"}'' \<rparr>\<close>

definition unauthorized :: response where
  \<open>unauthorized =
     \<lparr> statusCode = 401, statusMessage = ''Unauthorized'',
       rbody = JStr ''{"status":401,"message":"Invalid OAuth token"}'' \<rparr>\<close>

definition token_valid :: response where
  \<open>token_valid =
     \<lparr> statusCode = 200, statusMessage = ''OK'',
       rbody = JStr ''{"client_id":"abc","login":"ninja"}'' \<rparr>\<close>

definition token_invalid :: response where
  \<open>token_invalid =
     \<lparr> statusCode = 401, statusMessage = ''Unauthorized'',
       rbody = JStr ''{"status":401,"message":"invalid access token"}'' \<rparr>\<close>

definition users_found :: response where
  \<open>users_found =
     \<lparr> statusCode = 200, statusMessage = ''OK'',
       rbody = JStr ''{"data":[{"id":"19571641","login":"ninja"}]}'' \<rparr>\<close>

text \<open>The token endpoint answering a refresh-token grant; \<^verbatim>\<open>_refresh\<close> reads the body of
  this response as it is, without parsing it.\<close>

definition token_refreshed :: response where
  "token_refreshed =
     \<lparr> statusCode = 200, statusMessage = ''OK'',
       rbody = JObj [(''access_token'', JStr ''token1''), (''refresh_token'', JStr ''refresh1'')] \<rparr>"

text \<open>The token endpoint answering a client-credentials grant with a body that
  \<^verbatim>\<open>JSON.parse\<close> accepts.\<close>

definition app_token_granted :: response where
  \<open>app_token_granted =
     \<lparr> statusCode = 200, statusMessage = ''OK'',
       rbody = JStr ''{"access_token":"token1","token_type":"bearer"}'' \<rparr>\<close>

text \<open>An answer of status 401 whose body is already an object, as a request sent with
  \<^verbatim>\<open>json: true\<close> delivers it.\<close>

definition unauthorized_json :: response where
  "unauthorized_json =
     \<lparr> statusCode = 401, statusMessage = ''Unauthorized'',
       rbody = JObj [(''status'', JNum 401), (''message'', JStr ''Invalid OAuth token'')] \<rparr>"

text \<open>The \<open>n\<close>-th call of \<^verbatim>\<open>request\<close> is a GET of \<^verbatim>\<open>_get\<close> that fails without being
  fatal: a status of 400 and above, and a message that the regular expression of line 287
  does not match.\<close>

definition get_fails :: "env \<Rightarrow> nat \<Rightarrow> response \<Rightarrow> jsval \<Rightarrow> jsval \<Rightarrow> bool" where
  "get_fails e n r b m = (answered e n r b m \<and> 400 \<le> statusCode r \<and> \<not> regexp_test m)"

text \<open>The \<open>n\<close>-th call is answered with a status below 400 and a body that parses.\<close>

definition get_succeeds :: "env \<Rightarrow> nat \<Rightarrow> response \<Rightarrow> jsval \<Rightarrow> jsval \<Rightarrow> bool" where
  "get_succeeds e n r b m = (answered e n r b m \<and> statusCode r < 400)"

text \<open>The \<open>n\<close>-th call is a validation that \<^verbatim>\<open>_validate\<close> reads as \<open>valid\<close>: the body
  parses, its message is not \<^verbatim>\<open>missing authorization token\<close>, and the status is 200
  exactly when \<open>valid\<close>.\<close>

definition validator_says :: "env \<Rightarrow> nat \<Rightarrow> bool \<Rightarrow> bool" where
  "validator_says e n valid =
     (case net e n of
        Rejected err \<Rightarrow> False
      | Resolved r \<Rightarrow>
          (case JSON_parse e (rbody r) of
             None \<Rightarrow> False
           | Some b \<Rightarrow>
               (case get_prop b ''message'' of
                  Inl err \<Rightarrow> False
                | Inr m \<Rightarrow>
                    m \<noteq> JStr ''missing authorization token'' \<and> (statusCode r = 200) = valid)))"

text \<open>The \<open>n\<close>-th call is a token request of a refresh-token grant, answered with a body
  whose properties \<^verbatim>\<open>access_token\<close> and \<^verbatim>\<open>refresh_token\<close> read as \<open>at\<close> and \<open>rt\<close>
  (\<^verbatim>\<open>undefined\<close> when the body has none).\<close>

definition token_answered :: "env \<Rightarrow> nat \<Rightarrow> jsval \<Rightarrow> jsval \<Rightarrow> bool" where
  "token_answered e n at rt =
     (case net e n of
        Rejected err \<Rightarrow> False
      | Resolved r \<Rightarrow>
          get_prop (rbody r) ''access_token'' = Inr at \<and>
          get_prop (rbody r) ''refresh_token'' = Inr rt)"

text \<open>The \<open>n\<close>-th call is a token request of a client-credentials grant, answered with a
  body that parses to \<open>result\<close>, whose \<^verbatim>\<open>access_token\<close> reads as \<open>at\<close>.\<close>

definition app_token_answered :: "env \<Rightarrow> nat \<Rightarrow> jsval \<Rightarrow> jsval \<Rightarrow> bool" where
  "app_token_answered e n result at =
     (case net e n of
        Rejected err \<Rightarrow> False
      | Resolved r \<Rightarrow>
          JSON_parse e (rbody r) = Some result \<and> get_prop result ''access_token'' = Inr at)"


lemmas scenario_defs =
  demo_env_def script_def json_table_def new_world_def user_api_def app_api_def
  not_found_def unauthorized_def token_valid_def token_invalid_def users_found_def
  token_refreshed_def app_token_granted_def unauthorized_json_def

lemmas run_defs =
  request_def TwitchApi_get_request_def TwitchApi_refresh_def TwitchApi_refresh_app_def TwitchApi_refresh_user_def
  TwitchApi_validate_def TwitchApi_getAppAccessToken_def
  given_def call_def emit_def TwitchApi_isListeningFor_def TwitchApi_error_def
  regexp_test_def starts_with_def toLowerCase_def isWordChar_def

section \<open>A new instance\<close>

lemma constructor_fields_fresh:
  "constructor_fields e config = Inr this \<Longrightarrow>
   refresh_attempts this = 0 \<and> eventNames this = [] \<and>
   base this = ''https://api.twitch.tv/helix''"
  by (auto simp: constructor_fields_def split: sum.splits if_splits)

lemma constructor_fields_conflict:
  "get_prop config ''isApp'' = Inr a \<Longrightarrow> get_prop config ''access_token'' = Inr t \<Longrightarrow>
   ToBoolean a \<Longrightarrow> ToBoolean t \<Longrightarrow>
   constructor_fields e config =
     Inl (Error (''Option isApp is set to true while an access_token is provided. '' @
                 ''Choose one method of authentication, do not use both.''))"
  by (cases config) (auto simp: constructor_fields_def TwitchApi_error_def split: option.splits)

section \<open>What the private methods change\<close>

lemma request_Resolved:
  "net e (length (sent w)) = Resolved r \<Longrightarrow>
   request e options w = (Inr r, w\<lparr>sent := sent w @ [options]\<rparr>)"
  by (simp add: request_def)



lemma emit_frame:
  "emit event payload w = (r, w') \<Longrightarrow> api w' = api w \<and> sent w' = sent w"
  by (auto simp: emit_def split: if_splits)








lemma get_request_failing:
  assumes "answered e (length (sent w)) r b m" "400 \<le> statusCode r" "\<not> regexp_test m"
  shows "TwitchApi_get_request e endpoint w = (Inr (r, b), reported w endpoint r m)"
  using assms
  by (simp add: TwitchApi_get_request_def answered_def request_Resolved
        TwitchApi_isListeningFor_def emit_def reported_def)

lemma get_request_ok:
  assumes "answered e (length (sent w)) r b m" "statusCode r < 400"
  shows "TwitchApi_get_request e endpoint w =
           (Inr (r, b), w\<lparr>sent := sent w @ [TwitchApi_get_options (api w) endpoint]\<rparr>)"
  using assms
  by (simp add: TwitchApi_get_request_def answered_def request_Resolved)








lemma validate_says:
  assumes "validator_says e (length (sent w)) valid"
  shows "TwitchApi_validate e NoCallback w =
           (Inr (JBool valid), w\<lparr>sent := sent w @ [TwitchApi_validate_options (api w)]\<rparr>)"
  using assms
  by (auto simp: validator_says_def TwitchApi_validate_def request_def given_def
           split: net_result.splits option.splits sum.splits)

lemma refresh_token_valid:
  assumes "refresh_attempts (api w) \<le> 1" "validator_says e (length (sent w)) True"
  shows "TwitchApi_refresh e callback w =
           (Inr JUndefined, w\<lparr>sent := sent w @ [TwitchApi_validate_options (api w)]\<rparr>)"
  using assms by (simp add: TwitchApi_refresh_def validate_says)



lemma get_fails_step:
  assumes "get_fails e (length (sent w)) r b m"
  shows "TwitchApi_get e endpoint callback w =
         (case TwitchApi_refresh e NoCallback (reported w endpoint r m) of
            (Inl err, w4) \<Rightarrow> Some (Inl err, w4)
          | (Inr u, w4) \<Rightarrow> TwitchApi_get e endpoint callback w4)"
proof -
  from assms have "TwitchApi_get_request e endpoint w = (Inr (r, b), reported w endpoint r m)"
    using get_request_failing[of e w r b m endpoint] by (simp add: get_fails_def)
  then show ?thesis
    using assms by (subst TwitchApi_get.simps) (simp add: get_fails_def)
qed

lemma get_succeeds_step:
  assumes "get_succeeds e (length (sent w)) r b m"
  shows "TwitchApi_get e endpoint NoCallback w =
           Some (Inr b, w\<lparr>sent := sent w @ [TwitchApi_get_options (api w) endpoint]\<rparr>)"
proof -
  from assms have "TwitchApi_get_request e endpoint w =
      (Inr (r, b), w\<lparr>sent := sent w @ [TwitchApi_get_options (api w) endpoint]\<rparr>)"
    using get_request_ok[of e w r b m endpoint] by (simp add: get_succeeds_def)
  then show ?thesis
    using assms by (subst TwitchApi_get.simps) (simp add: get_succeeds_def given_def)
qed

lemma reported_simps:
  "api (reported w endpoint r m) = api w"
  "sent (reported w endpoint r m) = sent w @ [TwitchApi_get_options (api w) endpoint]"
  "console (reported w endpoint r m) = console w @ [TwitchApi_get_err_msg (api w) endpoint r m]"
  "calls (reported w endpoint r m) = calls w"
  "unhandled (reported w endpoint r m) = unhandled w"
  by (simp_all add: reported_def)

section \<open>Rounds of the dispatcher for GET\<close>




lemma get_valid_token:
  assumes "get_fails e (length (sent w)) r b m"
    and "refresh_attempts (api w) \<le> 1"
    and "validator_says e (length (sent w) + 1) True"
  shows "TwitchApi_refresh e NoCallback (reported w endpoint r m) =
           (Inr JUndefined,
            (reported w endpoint r m)
              \<lparr>sent := sent w @ [TwitchApi_get_options (api w) endpoint,
                                 TwitchApi_validate_options (api w)]\<rparr>)"
    and "TwitchApi_get e endpoint callback w =
         TwitchApi_get e endpoint callback
           ((reported w endpoint r m)
              \<lparr>sent := sent w @ [TwitchApi_get_options (api w) endpoint,
                                 TwitchApi_validate_options (api w)]\<rparr>)"
proof -
  show 1: "TwitchApi_refresh e NoCallback (reported w endpoint r m) =
           (Inr JUndefined,
            (reported w endpoint r m)
              \<lparr>sent := sent w @ [TwitchApi_get_options (api w) endpoint,
                                 TwitchApi_validate_options (api w)]\<rparr>)"
    using refresh_token_valid[of "reported w endpoint r m" e NoCallback] assms(2,3)
    by (simp add: reported_simps)
  show "TwitchApi_get e endpoint callback w =
         TwitchApi_get e endpoint callback
           ((reported w endpoint r m)
              \<lparr>sent := sent w @ [TwitchApi_get_options (api w) endpoint,
                                 TwitchApi_validate_options (api w)]\<rparr>)"
    by (simp add: get_fails_step[OF assms(1)] 1)
qed




section \<open>What a lifetime keeps\<close>




















section \<open>The answers of the scenarios\<close>

lemmas scenario_pred_defs =
  get_fails_def get_succeeds_def answered_def validator_says_def token_answered_def
  app_token_answered_def

lemma demo_net: "n < length rs \<Longrightarrow> net (demo_env rs) n = rs ! n"
  by (simp add: demo_env_def script_def)

lemma demo_unauthorized:
  assumes "n < length rs" "rs ! n = Resolved unauthorized"
  shows "get_fails (demo_env rs) n unauthorized
           (JObj [(''status'', JNum 401), (''message'', JStr ''Invalid OAuth token'')])
           (JStr ''Invalid OAuth token'')"
proof -
  have "\<not> regexp_test (JStr ''Invalid OAuth token'')"
    by (simp add: regexp_test_def starts_with_def toLowerCase_def isWordChar_def)
  moreover have "JSON_parse (demo_env rs) (rbody unauthorized) =
      Some (JObj [(''status'', JNum 401), (''message'', JStr ''Invalid OAuth token'')])"
    by (simp add: demo_env_def json_table_def unauthorized_def)
  moreover have "400 \<le> statusCode unauthorized" by (simp add: unauthorized_def)
  ultimately show ?thesis
    using assms by (simp add: get_fails_def answered_def demo_net)
qed

lemma demo_not_found:
  assumes "n < length rs" "rs ! n = Resolved not_found"
  shows "get_fails (demo_env rs) n not_found
           (JObj [(''status'', JNum 404), (''message'', JStr ''Not Found'')])
           (JStr ''Not Found'')"
proof -
  have "\<not> regexp_test (JStr ''Not Found'')"
    by (simp add: regexp_test_def starts_with_def toLowerCase_def isWordChar_def)
  moreover have "JSON_parse (demo_env rs) (rbody not_found) =
      Some (JObj [(''status'', JNum 404), (''message'', JStr ''Not Found'')])"
    by (simp add: demo_env_def json_table_def not_found_def)
  moreover have "400 \<le> statusCode not_found" by (simp add: not_found_def)
  ultimately show ?thesis
    using assms by (simp add: get_fails_def answered_def demo_net)
qed

lemma demo_users_found:
  assumes "n < length rs" "rs ! n = Resolved users_found"
  shows "get_succeeds (demo_env rs) n users_found
           (JObj [(''data'', JArr [JObj [(''id'', JStr ''19571641''),
                                         (''login'', JStr ''ninja'')]])])
           JUndefined"
proof -
  have "JSON_parse (demo_env rs) (rbody users_found) =
      Some (JObj [(''data'', JArr [JObj [(''id'', JStr ''19571641''),
                                         (''login'', JStr ''ninja'')]])])"
    by (simp add: demo_env_def json_table_def users_found_def)
  moreover have "statusCode users_found < 400" by (simp add: users_found_def)
  ultimately show ?thesis
    using assms by (simp add: get_succeeds_def answered_def demo_net)
qed

lemma demo_token_invalid:
  assumes "n < length rs" "rs ! n = Resolved token_invalid"
  shows "validator_says (demo_env rs) n False"
proof -
  have "JSON_parse (demo_env rs) (rbody token_invalid) =
      Some (JObj [(''status'', JNum 401), (''message'', JStr ''invalid access token'')])"
    by (simp add: demo_env_def json_table_def token_invalid_def)
  moreover have "statusCode token_invalid \<noteq> 200" by (simp add: token_invalid_def)
  ultimately show ?thesis
    using assms by (simp add: validator_says_def demo_net)
qed

lemma demo_token_valid:
  assumes "n < length rs" "rs ! n = Resolved token_valid"
  shows "validator_says (demo_env rs) n True"
proof -
  have "JSON_parse (demo_env rs) (rbody token_valid) =
      Some (JObj [(''client_id'', JStr ''abc''), (''login'', JStr ''ninja'')])"
    by (simp add: demo_env_def json_table_def token_valid_def)
  moreover have "statusCode token_valid = 200" by (simp add: token_valid_def)
  ultimately show ?thesis
    using assms by (simp add: validator_says_def demo_net)
qed

lemma demo_token_refreshed:
  assumes "n < length rs" "rs ! n = Resolved token_refreshed"
  shows "token_answered (demo_env rs) n (JStr ''token1'') (JStr ''refresh1'')"
  using assms by (simp add: token_answered_def demo_net token_refreshed_def)

lemma demo_app_token_granted:
  assumes "n < length rs" "rs ! n = Resolved app_token_granted"
  shows "app_token_answered (demo_env rs) n
           (JObj [(''access_token'', JStr ''token1''), (''token_type'', JStr ''bearer'')])
           (JStr ''token1'')"
proof -
  have "JSON_parse (demo_env rs) (rbody app_token_granted) =
      Some (JObj [(''access_token'', JStr ''token1''), (''token_type'', JStr ''bearer'')])"
    by (simp add: demo_env_def json_table_def app_token_granted_def)
  then show ?thesis
    using assms by (simp add: app_token_answered_def demo_net)
qed

lemma new_world_simps:
  "api (new_world this) = this" "sent (new_world this) = []" "console (new_world this) = []"
  "emitted (new_world this) = []" "calls (new_world this) = []"
  "unhandled (new_world this) = []"
  by (simp_all add: new_world_def)

lemmas demo_answers =
  demo_unauthorized demo_not_found demo_users_found demo_token_invalid demo_token_valid
  demo_token_refreshed demo_app_token_granted

section \<open>The dispatcher for POST, the custom request, the subscription status\<close>

lemma post_401_TypeError:
  assumes "net e (length (sent w)) = Resolved r" "statusCode r = 401"
    and "JSON_parse e (rbody r) = Some body" "JSON_parse e body = Some parsed"
    and "get_prop parsed ''message'' = Inr m"
    and "''error'' \<in> set (eventNames (api w))"
  shows "TwitchApi_post e endpoint data callback w =
           (Inl TypeError,
            w\<lparr>sent := sent w @ [TwitchApi_post_options (api w) endpoint data],
              console := console w @ [TwitchApi_post_err_msg (api w) endpoint r m],
              emitted := emitted w @ [(''error'', err_obj r m)]\<rparr>)"
  using assms
  by (simp add: TwitchApi_post_def request_Resolved emit_def call_value_def)

lemma post_error_status:
  assumes "net e (length (sent w)) = Resolved r" "400 \<le> statusCode r" "statusCode r \<noteq> 401"
    and "JSON_parse e (rbody r) = Some body" "JSON_parse e body = Some parsed"
    and "get_prop parsed ''message'' = Inr m"
    and "''error'' \<in> set (eventNames (api w))"
  shows "TwitchApi_post e endpoint data NoCallback w =
           (Inr body,
            w\<lparr>sent := sent w @ [TwitchApi_post_options (api w) endpoint data],
              console := console w @ [TwitchApi_post_err_msg (api w) endpoint r m],
              emitted := emitted w @ [(''error'', err_obj r m)]\<rparr>)"
  using assms
  by (simp add: TwitchApi_post_def request_Resolved emit_def given_def)


lemma map_of_set_prop: "map_of (set_prop ps k v) = (map_of ps)(k \<mapsto> v)"
  by (induction ps k v rule: set_prop.induct) (auto simp: fun_eq_iff)

lemma map_of_foldl_set_prop:
  "k \<notin> fst ` set xs \<Longrightarrow>
   map_of (foldl (\<lambda>t p. set_prop t (fst p) (snd p)) t xs) k = map_of t k"
  by (induction xs arbitrary: t) (auto simp: map_of_set_prop)

lemma map_of_Object_assign:
  "k \<notin> fst ` set (own_props h) \<Longrightarrow> map_of (Object_assign t h) k = map_of t k"
  by (simp add: Object_assign_def map_of_foldl_set_prop)




section \<open>Strings of decimal digits are numeric\<close>

lemma StrWhiteSpaceChar_heads:
  "p \<in> set StrWhiteSpaceChar \<Longrightarrow> p \<noteq> [] \<and> \<not> isDecimalDigit (hd p) \<and> \<not> isDecimalDigit (last p)"
  by (auto simp: StrWhiteSpaceChar_def isDecimalDigit_def)

lemma starts_with_hd:
  "starts_with s p \<Longrightarrow> p \<noteq> [] \<Longrightarrow> s \<noteq> [] \<and> hd s = hd p"
  by (cases s; cases p) (auto simp: starts_with_def)

lemma find_starts_with_None:
  assumes "s \<noteq> []" "isDecimalDigit (hd s)"
    and "\<And>p. p \<in> set seqs \<Longrightarrow> p \<noteq> [] \<and> \<not> isDecimalDigit (hd p)"
  shows "find (starts_with s) seqs = None"
  using assms by (auto simp: find_None_iff dest!: starts_with_hd)

lemma drop_seqs_digit:
  assumes "s \<noteq> []" "isDecimalDigit (hd s)"
    and "\<And>p. p \<in> set seqs \<Longrightarrow> p \<noteq> [] \<and> \<not> isDecimalDigit (hd p)"
  shows "drop_seqs n seqs s = s"
  using find_starts_with_None[OF assms] by (cases n) simp_all

lemma trim_digits:
  assumes "isDecimalDigits s"
  shows "trim s = s"
proof -
  from assms have ne: "s \<noteq> []" and all: "list_all isDecimalDigit s"
    by (simp_all add: isDecimalDigits_def)
  have h: "isDecimalDigit (hd s)" using ne all by (cases s) simp_all
  have l: "isDecimalDigit (hd (rev s))" using ne all
    by (simp add: hd_rev list_all_iff)
  have 1: "drop_seqs (length s) StrWhiteSpaceChar s = s"
    by (rule drop_seqs_digit[OF ne h]) (use StrWhiteSpaceChar_heads in blast)
  have 2: "drop_seqs (length s) (map rev StrWhiteSpaceChar) (rev s) = rev s"
  proof (rule drop_seqs_digit)
    show "rev s \<noteq> []" using ne by simp
    show "isDecimalDigit (hd (rev s))" by (rule l)
    fix p assume "p \<in> set (map rev StrWhiteSpaceChar)"
    then obtain q where q: "q \<in> set StrWhiteSpaceChar" "p = rev q" by auto
    with StrWhiteSpaceChar_heads[OF q(1)] show "p \<noteq> [] \<and> \<not> isDecimalDigit (hd p)"
      by (simp add: hd_rev)
  qed
  show ?thesis by (simp add: trim_def 1 2)
qed

lemma digits_numeric:
  assumes "isDecimalDigits s"
  shows "isStringNumericLiteral s"
proof -
  from assms have ne: "s \<noteq> []" and all: "list_all isDecimalDigit s"
    by (simp_all add: isDecimalDigits_def)
  have tw: "takeWhile isDecimalDigit s = s" "dropWhile isDecimalDigit s = []"
    using all by (simp_all add: list_all_iff)
  obtain c cs where s: "s = c # cs" using ne by (cases s) auto
  have c: "isDecimalDigit c" using all s by simp
  then have sign: "c \<noteq> CHR ''+''" "c \<noteq> CHR ''-''" by (auto simp: isDecimalDigit_def)
  have "isStrUnsignedDecimalLiteral s"
    unfolding isStrUnsignedDecimalLiteral_def Let_def tw
    using ne by (simp add: isOptExponentPart_def)
  then have "isStrDecimalLiteral s"
    using sign by (simp add: isStrDecimalLiteral_def s)
  then show ?thesis
    by (simp add: isStringNumericLiteral_def trim_digits[OF assms])
qed

section \<open>getCurrentUser with an application token\<close>

text \<open>
  Claim C6. On an instance in app mode (\<^verbatim>\<open>isApp\<close> true), every call of
  \<^verbatim>\<open>getCurrentUser\<close> throws an error, whatever its argument, and issues no HTTP request:
  the state, and with it the list of requests sent, is the one before the call.
\<close>

theorem getCurrentUser_app_mode_throws:
  assumes "isApp (api w)"
  shows "getCurrentUser e callback w =
           Some (Inl (Error (''Cannot get the current user when using an application token. '' @
                             ''Use access_token and refresh_token instead.'')), w)"
  using assms by (simp add: getCurrentUser_def TwitchApi_error_def)

theorem getCurrentUser_app_mode_throws_witness:
  "isApp (api (new_world app_api)) \<and>
   getCurrentUser (demo_env [Resolved users_found]) Callback (new_world app_api) =
     Some (Inl (Error (''Cannot get the current user when using an application token. '' @
                       ''Use access_token and refresh_token instead.'')), new_world app_api) \<and>
   sent (new_world app_api) = []"
  using getCurrentUser_app_mode_throws
          [of "new_world app_api" "demo_env [Resolved users_found]" Callback]
  by (simp add: new_world_def app_api_def)

section \<open>getStreams and the options of its caller\<close>



section \<open>The query of getUsers when the first id is not repeated\<close>

lemma indexOf_eq_0: "indexOf (y # ys) x = 0 \<longleftrightarrow> y = x"
  by (simp add: Let_def)

lemma getUsers_loop_others:
  "x \<notin> set rest \<Longrightarrow>
   getUsers_loop (x # ys) rest query =
     query @ concat (map (\<lambda>u. ''&'' @ (if isNaN (JStr u) then ''login'' else ''id'') @
                                 ''='' @ u) rest)"
proof (induction rest arbitrary: query)
  case Nil
  then show ?case by simp
next
  case (Cons u rest)
  then have "getUsers_param (x # ys) u =
               ''&'' @ (if isNaN (JStr u) then ''login'' else ''id'') @ ''='' @ u"
    by (auto simp: getUsers_param_def indexOf_eq_0 Let_def simp del: indexOf.simps)
  with Cons show ?case by simp
qed

lemma getUsers_query_first_not_repeated:
  assumes "x \<notin> set xs"
  shows "getUsers_query (IdsArray (x # xs)) =
           ''?'' @ (if isNaN (JStr x) then ''login'' else ''id'') @ ''='' @ x @
           concat (map (\<lambda>u. ''&'' @ (if isNaN (JStr u) then ''login'' else ''id'') @
                                ''='' @ u) xs)"
proof -
  have "getUsers_param (x # xs) x =
          ''?'' @ (if isNaN (JStr x) then ''login'' else ''id'') @ ''='' @ x"
    by (simp add: getUsers_param_def Let_def)
  then show ?thesis
    using getUsers_loop_others[OF assms, of xs] by (simp add: getUsers_query_def)
qed

section \<open>The query of getUsers\<close>

text \<open>
  Claim C4. For a list of ids the query has one parameter per id, in the order of the list;
  the first begins with \<^verbatim>\<open>?\<close> and every later one with \<^verbatim>\<open>&\<close>. The code decides by
  \<^verbatim>\<open>ids.indexOf(id) === 0\<close>, which also holds at a later position that repeats the first
  id: for the list \<^verbatim>\<open>["ninja", "shroud", "ninja"]\<close> the third parameter begins with
  \<^verbatim>\<open>?\<close>.
\<close>

theorem getUsers_query_repeated_first_id:
  "getUsers_query (IdsArray [''ninja'', ''shroud'', ''ninja'']) =
     ''?login=ninja&login=shroud?login=ninja''"
  by (simp add: getUsers_query_def getUsers_param_def isStringNumericLiteral_def trim_def
        StrWhiteSpaceChar_def starts_with_def isNonDecimalIntegerLiteral_def
        isStrDecimalLiteral_def isStrUnsignedDecimalLiteral_def isDecimalDigit_def)


section \<open>A failing GET with a token that is still valid\<close>

text \<open>
  Claim C2, as the code has it. A GET is answered with a status of 400 and above (and no
  fatal message), fewer than two refreshes have been counted, and the validator then
  reports the access token as valid. Then \<^verbatim>\<open>_refresh\<close> only sends the validation request
  and returns: no token request is sent and the instance (tokens and counter) is as before.
  The failure has been logged (and emitted to a listener), but it is not what the caller
  gets: \<^verbatim>\<open>_get\<close> sends the GET again, and the call goes on as a fresh call of \<^verbatim>\<open>_get\<close>
  on the same endpoint.
\<close>

theorem get_valid_token_retries_without_refresh:
  assumes "get_fails e (length (sent w)) r b m"
    and "refresh_attempts (api w) \<le> 1"
    and "validator_says e (length (sent w) + 1) True"
  shows "TwitchApi_refresh e NoCallback (reported w endpoint r m) =
           (Inr JUndefined,
            (reported w endpoint r m)
              \<lparr>sent := sent w @ [TwitchApi_get_options (api w) endpoint,
                                 TwitchApi_validate_options (api w)]\<rparr>) \<and>
         api (reported w endpoint r m) = api w \<and>
         TwitchApi_get e endpoint callback w =
           TwitchApi_get e endpoint callback
             ((reported w endpoint r m)
                \<lparr>sent := sent w @ [TwitchApi_get_options (api w) endpoint,
                                   TwitchApi_validate_options (api w)]\<rparr>)"
  using get_valid_token[OF assms] by (simp add: reported_simps)

theorem get_valid_token_retries_without_refresh_witness:
  "get_fails (demo_env [Resolved not_found, Resolved token_valid, Resolved users_found]) 0
     not_found (JObj [(''status'', JNum 404), (''message'', JStr ''Not Found'')])
     (JStr ''Not Found'') \<and>
   validator_says (demo_env [Resolved not_found, Resolved token_valid, Resolved users_found])
     1 True \<and>
   TwitchApi_get (demo_env [Resolved not_found, Resolved token_valid, Resolved users_found])
       ''/users?login=ninja'' NoCallback (new_world user_api) =
     TwitchApi_get (demo_env [Resolved not_found, Resolved token_valid, Resolved users_found])
       ''/users?login=ninja'' NoCallback
       ((reported (new_world user_api) ''/users?login=ninja'' not_found (JStr ''Not Found''))
          \<lparr>sent := [TwitchApi_get_options user_api ''/users?login=ninja'',
                     TwitchApi_validate_options user_api]\<rparr>)"
proof -
  let ?e = "demo_env [Resolved not_found, Resolved token_valid, Resolved users_found]"
  have f: "get_fails ?e (length (sent (new_world user_api))) not_found
             (JObj [(''status'', JNum 404), (''message'', JStr ''Not Found'')])
             (JStr ''Not Found'')"
    by (simp add: demo_answers new_world_simps)
  have c: "refresh_attempts (api (new_world user_api)) \<le> 1"
    by (simp add: new_world_simps user_api_def)
  have v: "validator_says ?e (length (sent (new_world user_api)) + 1) True"
    by (simp add: demo_answers new_world_simps)
  from get_valid_token_retries_without_refresh[OF f c v, of "''/users?login=ninja''" NoCallback]
    f v
  show ?thesis by (simp add: new_world_simps)
qed

text \<open>
  Claim C2 as stated (the request is not retried, the original failure is surfaced) fails:
  with a 404, then a validation of status 200, then a 200, the call sends the GET twice
  and returns the body of the second answer; the instance is unchanged.
\<close>

theorem get_valid_token_is_retried:
  "TwitchApi_get (demo_env [Resolved not_found, Resolved token_valid, Resolved users_found])
     ''/users?login=ninja'' NoCallback (new_world user_api) =
   Some (Inr (JObj [(''data'',
                     JArr [JObj [(''id'', JStr ''19571641''), (''login'', JStr ''ninja'')]])]),
         \<lparr> api = user_api,
           sent = [TwitchApi_get_options user_api ''/users?login=ninja'',
                   TwitchApi_validate_options user_api,
                   TwitchApi_get_options user_api ''/users?login=ninja''],
           console = [TwitchApi_get_err_msg user_api ''/users?login=ninja'' not_found
                        (JStr ''Not Found'')],
           emitted = [], calls = [], unhandled = [] \<rparr>)"
proof -
  let ?e = "demo_env [Resolved not_found, Resolved token_valid, Resolved users_found]"
  let ?w = "new_world user_api"
  let ?w1 = "\<lparr> api = user_api,
           sent = [TwitchApi_get_options user_api ''/users?login=ninja'',
                   TwitchApi_validate_options user_api],
           console = [TwitchApi_get_err_msg user_api ''/users?login=ninja'' not_found
                        (JStr ''Not Found'')],
           emitted = [], calls = [], unhandled = [] \<rparr>"
  have f: "get_fails ?e (length (sent ?w)) not_found
             (JObj [(''status'', JNum 404), (''message'', JStr ''Not Found'')])
             (JStr ''Not Found'')"
    by (simp add: demo_answers new_world_simps)
  have c: "refresh_attempts (api ?w) \<le> 1"
    by (simp add: new_world_simps user_api_def)
  have v: "validator_says ?e (length (sent ?w) + 1) True"
    by (simp add: demo_answers new_world_simps)
  have l: "''error'' \<notin> set (eventNames user_api)"
    by (simp add: user_api_def)
  have 1: "TwitchApi_get ?e ''/users?login=ninja'' NoCallback ?w =
           TwitchApi_get ?e ''/users?login=ninja'' NoCallback ?w1"
    using get_valid_token(2)[OF f c v, of "''/users?login=ninja''" NoCallback] l
    by (simp add: reported_def TwitchApi_isListeningFor_def new_world_def)
  have 2: "TwitchApi_get ?e ''/users?login=ninja'' NoCallback ?w1 =
      Some (Inr (JObj [(''data'', JArr [JObj [(''id'', JStr ''19571641''),
                                              (''login'', JStr ''ninja'')]])]),
            ?w1\<lparr>sent := sent ?w1 @ [TwitchApi_get_options (api ?w1) ''/users?login=ninja'']\<rparr>)"
    by (rule get_succeeds_step[where r = users_found and m = JUndefined])
       (simp add: demo_answers)
  show ?thesis
    unfolding 1 2 by simp
qed

section \<open>One refresh and one retry; giving up after two refreshes\<close>



section \<open>The counter of refresh attempts over a lifetime\<close>




section \<open>A POST answered with 401\<close>

text \<open>
  Claim C3. A POST that receives a 401 is followed by a refresh and by a second POST of the
  same endpoint with the same data. The code does neither: whatever the environment, a call
  of \<^verbatim>\<open>_post\<close> answered with status 401 ends in a thrown error after its one request; no
  validation or token request and no second POST is sent, the instance is unchanged, and no
  callback is called. (The error is the \<^verbatim>\<open>SyntaxError\<close> of parsing a body that is already
  an object, or the error of emitting \<^verbatim>\<open>"error"\<close> without a listener, or at last the
  \<^verbatim>\<open>TypeError\<close> of line 373, which calls the refresh token as a function.)
\<close>

theorem post_401_throws_without_refresh_or_retry:
  assumes "net e (length (sent w)) = Resolved r" "statusCode r = 401"
  shows "\<exists>err w'. TwitchApi_post e endpoint data callback w = (Inl err, w') \<and>
                  sent w' = sent w @ [TwitchApi_post_options (api w) endpoint data] \<and>
                  api w' = api w \<and> calls w' = calls w"
  using assms
  by (auto simp: TwitchApi_post_def request_Resolved emit_def call_value_def Let_def
           split: option.splits sum.splits)

theorem post_401_throws_without_refresh_or_retry_witness:
  "net (demo_env [Resolved unauthorized_json]) (length (sent (new_world user_api))) =
     Resolved unauthorized_json \<and>
   statusCode unauthorized_json = 401 \<and>
   TwitchApi_post (demo_env [Resolved unauthorized_json]) ''/users/follows''
      (JObj [(''from_id'', JStr ''1''), (''to_id'', JStr ''2'')]) NoCallback
      (new_world user_api) =
     (Inl SyntaxError,
      \<lparr> api = user_api,
        sent = [TwitchApi_post_options user_api ''/users/follows''
                  (JObj [(''from_id'', JStr ''1''), (''to_id'', JStr ''2'')])],
        console = [], emitted = [], calls = [], unhandled = [] \<rparr>)"
proof -
  let ?e = "demo_env [Resolved unauthorized_json]"
  let ?w = "new_world user_api"
  let ?d = "JObj [(''from_id'', JStr ''1''), (''to_id'', JStr ''2'')]"
  have n: "net ?e (length (sent ?w)) = Resolved unauthorized_json"
    by (simp add: demo_net new_world_simps)
  have s: "statusCode unauthorized_json = 401"
    by (simp add: unauthorized_json_def)
  from post_401_throws_without_refresh_or_retry[OF n s, of "''/users/follows''" ?d NoCallback]
  obtain err w' where r: "TwitchApi_post ?e ''/users/follows'' ?d NoCallback ?w = (Inl err, w')"
    "sent w' = sent ?w @ [TwitchApi_post_options (api ?w) ''/users/follows'' ?d]"
    by blast
  have p: "JSON_parse ?e (rbody unauthorized_json) = None"
    by (simp add: demo_env_def json_table_def unauthorized_json_def)
  have "TwitchApi_post ?e ''/users/follows'' ?d NoCallback ?w =
          (Inl SyntaxError, ?w\<lparr>sent := sent ?w @ [TwitchApi_post_options (api ?w) ''/users/follows'' ?d]\<rparr>)"
    using n p by (simp add: TwitchApi_post_def request_Resolved)
  then show ?thesis
    using n s r by (simp add: new_world_def)
qed

section \<open>The custom request\<close>



section \<open>The subscription status of users\<close>




section \<open>Sniffing the type of an id\<close>

text \<open>
  Claim C5, as the code has it. For a single string passed to \<^verbatim>\<open>getUsers\<close>, and for a
  channel string of \<^verbatim>\<open>getStreams\<close>, the type is decided by \<^verbatim>\<open>isNaN\<close>: the string is an
  id (\<^verbatim>\<open>id\<close>, \<^verbatim>\<open>user_id\<close>) when JavaScript reads it as a number and a login
  (\<^verbatim>\<open>login\<close>, \<^verbatim>\<open>user_login\<close>) when it does not. Every non-empty string of decimal
  digits is an id.
\<close>

theorem sniffer_classifies_by_isNaN:
  "(isDecimalDigits s \<longrightarrow>
      getUsers_query (IdsString s) = ''?id='' @ s \<and>
      getStreams_channel (JStr s) = ''user_id='' @ s @ ''&'') \<and>
   (isNaN (JStr s) \<longrightarrow>
      getUsers_query (IdsString s) = ''?login='' @ s \<and>
      getStreams_channel (JStr s) = ''user_login='' @ s @ ''&'') \<and>
   (\<not> isNaN (JStr s) \<longrightarrow>
      getUsers_query (IdsString s) = ''?id='' @ s \<and>
      getStreams_channel (JStr s) = ''user_id='' @ s @ ''&'')"
  using digits_numeric[of s]
  by (auto simp: getUsers_query_def getStreams_channel_def)

theorem sniffer_classifies_by_isNaN_witness:
  "isDecimalDigits ''19571641'' \<and>
   getUsers_query (IdsString ''19571641'') = ''?id=19571641'' \<and>
   getStreams_channel (JStr ''19571641'') = ''user_id=19571641&'' \<and>
   isNaN (JStr ''ninja'') \<and>
   getUsers_query (IdsString ''ninja'') = ''?login=ninja'' \<and>
   getStreams_channel (JStr ''ninja'') = ''user_login=ninja&''"
proof -
  have d: "isDecimalDigits ''19571641''"
    by (simp add: isDecimalDigits_def isDecimalDigit_def)
  have n: "isNaN (JStr ''ninja'')"
    by (simp add: isStringNumericLiteral_def trim_def StrWhiteSpaceChar_def starts_with_def
          isNonDecimalIntegerLiteral_def isStrDecimalLiteral_def
          isStrUnsignedDecimalLiteral_def isDecimalDigit_def)
  from sniffer_classifies_by_isNaN[of "''19571641''"] d
  have 1: "getUsers_query (IdsString ''19571641'') = ''?id=19571641'' \<and>
           getStreams_channel (JStr ''19571641'') = ''user_id=19571641&''"
    by simp
  from sniffer_classifies_by_isNaN[of "''ninja''"] n
  have 2: "getUsers_query (IdsString ''ninja'') = ''?login=ninja'' \<and>
           getStreams_channel (JStr ''ninja'') = ''user_login=ninja&''"
    by simp
  from d n 1 2 show ?thesis by simp
qed

text \<open>
  Claim C5 as stated (every string that is not purely numeric is a login) fails: the string
  \<^verbatim>\<open>1e10\<close> is not purely numeric, and \<^verbatim>\<open>isNaN\<close> reads it as a number, so it is
  classified as an id.
\<close>

theorem sniffer_takes_exponent_for_id:
  "\<not> isDecimalDigits ''1e10'' \<and>
   getUsers_query (IdsString ''1e10'') = ''?id=1e10'' \<and>
   getStreams_channel (JStr ''1e10'') = ''user_id=1e10&''"
  by (simp add: getUsers_query_def getStreams_channel_def isStringNumericLiteral_def trim_def
        isDecimalDigits_def StrWhiteSpaceChar_def starts_with_def
        isNonDecimalIntegerLiteral_def isOptExponentPart_def isExponentPart_def
        isSignedInteger_def isStrDecimalLiteral_def isStrUnsignedDecimalLiteral_def
        isDecimalDigit_def)

end
